theory Spec2Isabelle
  imports Complex_Main
begin

section \<open>Launch geometry of the categorical sampler (gpustats/sampler.py)\<close>

text \<open>
  The module is Python 2 (its self-test uses the \<^verbatim>\<open>print\<close> statement), so \<^verbatim>\<open>/\<close> on two
  integers is floor division, which is \<open>div\<close> on \<open>int\<close>. The device descriptor
  \<^verbatim>\<open>gpustats.util.info\<close> is read by the code and never written; it is a parameter of
  every definition below. Its fields are the integers the CUDA driver reports.

  The three safety margins are Python floats (\<^verbatim>\<open>info.shared_mem * 0.8\<close>,
  \<^verbatim>\<open>0.9 * info.max_registers\<close>, \<^verbatim>\<open>info.max_block_threads * 0.5\<close>). They are modelled
  by the exact products over \<open>real\<close>. Python compares an integer with a float exactly,
  and for limits below \<open>2 ^ 48\<close> in magnitude the rounded double product lies on the same
  side of every integer as the exact product (it is the exact product whenever that is an
  integer), so each comparison of the source has the truth value of its exact counterpart.
\<close>

record device_info =
  compute_cap :: "int \<times> int"
  shared_mem :: int
  max_block_threads :: int
  max_registers :: int

record launch =
  block :: "int \<times> int \<times> int"
  grid :: "int \<times> int"
  shared :: int

text \<open>Python's \<^verbatim>\<open>int(f)\<close> on a float truncates towards zero.\<close>

definition py_int :: "real \<Rightarrow> int" where
  "py_int r = (if 0 \<le> r then \<lfloor>r\<rfloor> else \<lceil>r\<rceil>)"

subsection \<open>The fixed-block geometry of \<^verbatim>\<open>sample_discrete\<close> (lines 56 to 67)\<close>

definition x_block_dim :: "device_info \<Rightarrow> int" where
  "x_block_dim info = (if max_block_threads info < 1024 then 16 else 32)"

definition y_block_dim :: int where
  "y_block_dim = 16"

definition sample_discrete_launch :: "device_info \<Rightarrow> int \<Rightarrow> launch" where
  "sample_discrete_launch info n =
     (let block_design = (x_block_dim info, y_block_dim, 1);
          grid_design = (n div y_block_dim + 1, 1);
          shared_mem = 4 * ((x_block_dim info + 1) * y_block_dim + 2 * y_block_dim)
      in \<lparr>block = block_design, grid = grid_design, shared = shared_mem\<rparr>)"

subsection \<open>The adaptive geometry of \<^verbatim>\<open>_tune_sfm\<close> (lines 155 to 189)\<close>

definition sfm_config_ok :: "int \<Rightarrow> int \<Rightarrow> int \<Rightarrow> int \<Rightarrow> real \<Rightarrow> real \<Rightarrow> int \<Rightarrow> bool" where
  "sfm_config_ok xdim ydim stride func_regs max_regs max_smem max_threads =
     (let ok = (of_int (4 * (xdim * stride + 1 * xdim)) < max_smem
                \<and> of_int (func_regs * ydim * xdim) < max_regs)
      in ok \<and> xdim * ydim \<le> max_threads)"

text \<open>
  The \<^verbatim>\<open>while\<close> loop of lines 182 and 183. Nothing in the loop itself bounds the number
  of iterations, so the loop is a partial function: \<open>None\<close> is a loop that never ends.
\<close>

partial_function (option) sfm_loop ::
  "int \<Rightarrow> int \<Rightarrow> int \<Rightarrow> int \<Rightarrow> real \<Rightarrow> real \<Rightarrow> int \<Rightarrow> int option" where
  "sfm_loop xdim ydim stride func_regs max_regs max_smem max_threads =
     (if sfm_config_ok xdim ydim stride func_regs max_regs max_smem max_threads
      then sfm_loop xdim (ydim + 1) stride func_regs max_regs max_smem max_threads
      else Some ydim)"

declare sfm_loop.simps [code]

definition tune_max_smem :: "device_info \<Rightarrow> real" where
  "tune_max_smem info = of_int (shared_mem info) * 0.8"

definition tune_max_threads :: "device_info \<Rightarrow> int" where
  "tune_max_threads info = py_int (of_int (max_block_threads info) * 0.5)"

definition tune_max_regs :: "device_info \<Rightarrow> real" where
  "tune_max_regs info = 0.9 * of_int (max_registers info)"

definition tune_xdim :: "device_info \<Rightarrow> int" where
  "tune_xdim info = (if fst (compute_cap info) = 1 then 16 else 32)"

definition tune_sfm ::
  "device_info \<Rightarrow> int \<Rightarrow> int \<Rightarrow> int \<Rightarrow> ((int \<times> int) \<times> (int \<times> int \<times> int)) option" where
  "tune_sfm info n stride func_regs =
     (let max_smem = tune_max_smem info;
          max_threads = tune_max_threads info;
          max_regs = tune_max_regs info;
          xdim = tune_xdim info
      in case sfm_loop xdim 2 stride func_regs max_regs max_smem max_threads of
           None \<Rightarrow> None
         | Some ydim' \<Rightarrow>
             (let ydim = ydim' - 1;
                  nblocks = n div xdim + 1
              in Some ((nblocks, 1), (xdim, ydim, 1))))"

text \<open>The stride of \<^verbatim>\<open>sample_discrete_old\<close> (lines 131 to 133) and its shared memory
  request (lines 140 and 141).\<close>

definition old_stride :: "int \<Rightarrow> int" where
  "old_stride k = (if k mod 2 = 0 then k + 1 else k)"

definition old_shared_mem :: "int \<times> int \<times> int \<Rightarrow> int \<Rightarrow> int" where
  "old_shared_mem block_design stride =
     4 * (fst block_design * stride + 1 * fst block_design)"

subsection \<open>Two device descriptors for concrete evaluation\<close>

text \<open>The limits of a compute capability 2.0 device (48 KB of shared memory, 1024 threads
  and 32768 registers per block), and a descriptor with small limits.\<close>

definition example_device :: device_info where
  "example_device = \<lparr>compute_cap = (2, 0), shared_mem = 49152,
     max_block_threads = 1024, max_registers = 32768\<rparr>"

definition small_device :: device_info where
  "small_device = \<lparr>compute_cap = (1, 0), shared_mem = 1024,
     max_block_threads = 128, max_registers = 8192\<rparr>"

section \<open>The sampling entry points\<close>

text \<open>
  \<^verbatim>\<open>sample_discrete\<close> and \<^verbatim>\<open>sample_discrete_old\<close> work through collaborators that are
  not part of the module: NumPy's process-global random generator, PyCUDA's device
  arrays, and the compiled kernels. Their effects are made explicit in a \<open>world\<close> that
  every call takes and returns:
  \<^item> \<open>rng\<close> is the state of the global generator, as the stream of uniform draws it
    will hand out next;
  \<^item> \<open>device_free\<close> is the free device memory in bytes; an allocation that does not fit
    raises (\<open>MemoryError\<close>);
  \<^item> \<open>live\<close> lists the device arrays allocated and not yet freed, \<open>next_handle\<close> is
    the next fresh allocation handle;
  \<^item> \<open>launch_faults\<close> says whether the device rejects the launch (\<open>LaunchError\<close>);
  \<^item> \<open>trace\<close> records allocations, launches, copies to the host and frees in order.
  An exception leaves the world as it is at the raise: the module has no
  \<^verbatim>\<open>try\<close> block. The element type of a buffer is a tag; a density is a finite real, an
  infinity or a NaN, and a draw is a real.
\<close>

datatype dtype = Int32 | Float32

datatype buffer = Densities | Draws | Output

record gpuarray =
  gpudata :: nat
  nelems :: nat
  dtype :: dtype
  holds :: buffer

datatype event = Alloc gpuarray | Free nat | Launch string launch | Get nat

datatype error = ValueError | MemoryError | LaunchError

record world =
  rng :: "nat \<Rightarrow> real"
  device_free :: nat
  live :: "gpuarray list"
  next_handle :: nat
  launch_faults :: bool
  trace :: "event list"

text \<open>An element of the densities array: a finite value, an infinity or a NaN.\<close>

datatype float32 = Finite real | PosInf | NegInf | NaN

text \<open>The densities argument: its \<^verbatim>\<open>shape\<close> tuple, its elements by row and column,
  whether it is a \<^verbatim>\<open>GPUArray\<close> and whether it is column-major.\<close>

record ndarray =
  shape :: "nat list"
  elems :: "nat \<Rightarrow> nat \<Rightarrow> float32"
  is_gpuarray :: bool
  f_contiguous :: bool

datatype result = HostArray dtype "int list" | DeviceArray gpuarray "int list"

text \<open>The \<^verbatim>\<open>dtype\<close> attribute of the array a call returns.\<close>

fun result_dtype :: "result \<Rightarrow> dtype" where
  "result_dtype (HostArray dt vals) = dt"
| "result_dtype (DeviceArray a vals) = dtype a"

text \<open>\<^verbatim>\<open>to_gpu\<close> and \<^verbatim>\<open>gpu_empty\<close> create a device array of four bytes per element (both
  element types are 32 bits wide); \<open>None\<close> is the allocation failure. An \<open>Alloc\<close> event is
  the creation of the array. PyCUDA is not part of the module: an array of no elements is
  created like any other and takes \<open>4 * 0\<close> bytes.\<close>

definition gpu_alloc :: "nat \<Rightarrow> dtype \<Rightarrow> buffer \<Rightarrow> world \<Rightarrow> (gpuarray \<times> world) option" where
  "gpu_alloc n dt b w =
     (if 4 * n \<le> device_free w
      then (let a = \<lparr>gpudata = next_handle w, nelems = n, dtype = dt, holds = b\<rparr>
            in Some (a, w\<lparr>device_free := device_free w - 4 * n,
                           live := live w @ [a],
                           next_handle := Suc (next_handle w),
                           trace := trace w @ [Alloc a]\<rparr>))
      else None)"

text \<open>\<^verbatim>\<open>a.gpudata.free()\<close>\<close>

definition gpu_free :: "gpuarray \<Rightarrow> world \<Rightarrow> world" where
  "gpu_free a w =
     w\<lparr>device_free := device_free w + 4 * nelems a,
       live := filter (\<lambda>b. gpudata b \<noteq> gpudata a) (live w),
       trace := trace w @ [Free (gpudata a)]\<rparr>"

text \<open>\<^verbatim>\<open>np.random.rand(n)\<close> takes the next \<open>n\<close> draws of the global generator.\<close>

definition np_random_rand :: "nat \<Rightarrow> world \<Rightarrow> real list \<times> world" where
  "np_random_rand n w = (map (rng w) [0..<n], w\<lparr>rng := (\<lambda>i. rng w (i + n))\<rparr>)"

text \<open>
  Lines 39 to 46 (and 117 to 124): a host array is normalised and uploaded, a column-major
  device array is transposed into a new device array, a row-major device array is used as
  it is. Modelled from the spec: \<^verbatim>\<open>util.prep_ndarray\<close> and \<^verbatim>\<open>util.transpose\<close> are not in
  the source file; section 4.3 has them ensure the row-major layout and leave the \<open>n\<close> by
  \<open>k\<close> contents as they are.
\<close>

definition prep_data :: "ndarray \<Rightarrow> nat \<Rightarrow> nat \<Rightarrow> world \<Rightarrow> world option" where
  "prep_data densities n k w =
     (if is_gpuarray densities then
        (if f_contiguous densities
         then map_option snd (gpu_alloc (n * k) Float32 Densities w)
         else Some w)
      else map_option snd (gpu_alloc (n * k) Float32 Densities w))"

subsection \<open>The kernel\<close>

text \<open>
  Modelled from the spec: the CUDA kernels \<^verbatim>\<open>sample_discrete\<close>,
  \<^verbatim>\<open>sample_discrete_old\<close> and \<^verbatim>\<open>sample_discrete_logged_old\<close> are built by
  \<^verbatim>\<open>gpustats.codegen\<close> and are not in the source file. Section 4.2 of the spec gives the
  algorithm of a row: the masses are the weights (linear scale) or \<open>exp (w - max)\<close> (log
  scale); the sampled index is the first one whose cumulative mass is at or above
  \<open>u * total\<close> (ties go to the lower index), and \<open>k - 1\<close> when there is none. Section 3 has
  a non-finite weight only in a degenerate row, and a degenerate row resolves to \<open>k - 1\<close>
  (sections 4.2 and 7): that is the index of a row that is not all finite.
\<close>

fun finite_values :: "float32 list \<Rightarrow> real list option" where
  "finite_values [] = Some []"
| "finite_values (Finite r # ws) = map_option ((#) r) (finite_values ws)"
| "finite_values (PosInf # ws) = None"
| "finite_values (NegInf # ws) = None"
| "finite_values (NaN # ws) = None"

definition row_masses :: "bool \<Rightarrow> real list \<Rightarrow> real list" where
  "row_masses logged ws = (if logged then map (\<lambda>w. exp (w - Max (set ws))) ws else ws)"

fun inverse_cdf :: "real \<Rightarrow> real \<Rightarrow> nat \<Rightarrow> real list \<Rightarrow> nat option" where
  "inverse_cdf t c i [] = None"
| "inverse_cdf t c i (m # ms) =
     (if t \<le> c + m then Some i else inverse_cdf t (c + m) (Suc i) ms)"

definition sample_row :: "nat \<Rightarrow> bool \<Rightarrow> real list \<Rightarrow> real \<Rightarrow> int" where
  "sample_row k logged ws u =
     (let ms = row_masses logged ws
      in case inverse_cdf (u * sum_list ms) 0 0 ms of
           Some i \<Rightarrow> int i
         | None \<Rightarrow> int k - 1)"

definition categorical_kernel ::
  "nat \<Rightarrow> nat \<Rightarrow> bool \<Rightarrow> (nat \<Rightarrow> nat \<Rightarrow> float32) \<Rightarrow> real list \<Rightarrow> int list" where
  "categorical_kernel n k logged dens draws =
     map (\<lambda>i. case finite_values (map (dens i) [0..<k]) of
                Some ws \<Rightarrow> sample_row k logged ws (draws ! i)
              | None \<Rightarrow> int k - 1) [0..<n]"

text \<open>The call \<^verbatim>\<open>cu_func(..., block=..., grid=..., shared=...)\<close>: the launch is recorded,
  and either faults or fills the output buffer.\<close>

definition cu_func ::
  "string \<Rightarrow> launch \<Rightarrow> int list \<Rightarrow> world \<Rightarrow> (error + int list) \<times> world" where
  "cu_func name geometry out w =
     (let w' = w\<lparr>trace := trace w @ [Launch name geometry]\<rparr>
      in if launch_faults w then (Inl LaunchError, w') else (Inr out, w'))"

text \<open>Lines 73 to 79, and the same statements at lines 147 to 153.\<close>

definition collect ::
  "gpuarray \<Rightarrow> gpuarray \<Rightarrow> int list \<Rightarrow> bool \<Rightarrow> world \<Rightarrow> result \<times> world" where
  "collect gpu_random gpu_dest dest return_gpuarray w =
     (let w1 = gpu_free gpu_random w
      in if return_gpuarray then (DeviceArray gpu_dest dest, w1)
         else (let res = HostArray (dtype gpu_dest) dest;
                   w2 = w1\<lparr>trace := trace w1 @ [Get (gpudata gpu_dest)]\<rparr>;
                   w3 = gpu_free gpu_dest w2
               in (res, w3)))"

subsection \<open>\<^verbatim>\<open>sample_discrete\<close> (lines 16 to 79)\<close>

definition sample_discrete ::
  "device_info \<Rightarrow> ndarray \<Rightarrow> bool \<Rightarrow> bool \<Rightarrow> world \<Rightarrow> (error + result) \<times> world" where
  "sample_discrete info densities logged return_gpuarray w =
     (case shape densities of
        [n, k] \<Rightarrow>
          (case prep_data densities n k w of
             None \<Rightarrow> (Inl MemoryError, w)
           | Some w1 \<Rightarrow>
               (case np_random_rand n w1 of
                  (draws, w2) \<Rightarrow>
                    (case gpu_alloc n Float32 Draws w2 of
                       None \<Rightarrow> (Inl MemoryError, w2)
                     | Some (gpu_random, w3) \<Rightarrow>
                         (case gpu_alloc n Int32 Output w3 of
                            None \<Rightarrow> (Inl MemoryError, w3)
                          | Some (gpu_dest, w4) \<Rightarrow>
                              (case cu_func ''sample_discrete''
                                      (sample_discrete_launch info (int n))
                                      (categorical_kernel n k logged (elems densities) draws) w4 of
                                 (Inl e, w5) \<Rightarrow> (Inl e, w5)
                               | (Inr dest, w5) \<Rightarrow>
                                   (case collect gpu_random gpu_dest dest return_gpuarray w5 of
                                      (res, w6) \<Rightarrow> (Inr res, w6)))))))
      | _ \<Rightarrow> (Inl ValueError, w))"

subsection \<open>\<^verbatim>\<open>sample_discrete_old\<close> (lines 83 to 153)\<close>

text \<open>
  \<^verbatim>\<open>util.pad_data_mult16\<close> and the register counts of the compiled kernels
  (\<^verbatim>\<open>cu_func.num_regs\<close>) are not in the source file; they are parameters. The result is
  \<open>None\<close> when the search of \<^verbatim>\<open>_tune_sfm\<close> does not return.
\<close>

definition sample_discrete_old ::
  "device_info \<Rightarrow> (ndarray \<Rightarrow> real \<Rightarrow> ndarray) \<Rightarrow> (string \<Rightarrow> int) \<Rightarrow>
   ndarray \<Rightarrow> bool \<Rightarrow> bool \<Rightarrow> bool \<Rightarrow> world \<Rightarrow> ((error + result) \<times> world) option" where
  "sample_discrete_old info pad_data_mult16 num_regs in_densities logged pad return_gpuarray w =
     (let densities =
            (if pad then
               (if logged then pad_data_mult16 in_densities 1
                else pad_data_mult16 in_densities 0)
             else in_densities)
      in case shape densities of
           [n, k] \<Rightarrow>
             (let name = (if logged then ''sample_discrete_logged_old''
                          else ''sample_discrete_old'')
              in case prep_data densities n k w of
                   None \<Rightarrow> Some (Inl MemoryError, w)
                 | Some w1 \<Rightarrow>
                     (case np_random_rand n w1 of
                        (draws, w2) \<Rightarrow>
                          (case gpu_alloc n Float32 Draws w2 of
                             None \<Rightarrow> Some (Inl MemoryError, w2)
                           | Some (gpu_random, w3) \<Rightarrow>
                               (case gpu_alloc n Float32 Output w3 of
                                  None \<Rightarrow> Some (Inl MemoryError, w3)
                                | Some (gpu_dest, w4) \<Rightarrow>
                                    (let stride = old_stride (int k)
                                     in case tune_sfm info (int n) stride (num_regs name) of
                                          None \<Rightarrow> None
                                        | Some (grid_design, block_design) \<Rightarrow>
                                            (let shared_mem = old_shared_mem block_design stride
                                             in case cu_func name
                                                  \<lparr>block = block_design, grid = grid_design,
                                                     shared = shared_mem\<rparr>
                                                  (categorical_kernel n k logged
                                                     (elems densities) draws) w4 of
                                               (Inl e, w5) \<Rightarrow> Some (Inl e, w5)
                                             | (Inr dest, w5) \<Rightarrow>
                                                 (case collect gpu_random gpu_dest dest
                                                         return_gpuarray w5 of
                                                    (res, w6) \<Rightarrow> Some (Inr res, w6))))))))
         | _ \<Rightarrow> Some (Inl ValueError, w))"

subsection \<open>Inputs and worlds for concrete evaluation\<close>

text \<open>One row of two equal weights on the host; one row of a NaN and a weight; a world
  with one megabyte of free device memory whose generator hands out 0.1; the same world with a
  generator that hands out 0.9; and the same world with a device that rejects the launch.\<close>

definition one_row :: ndarray where
  "one_row = \<lparr>shape = [1, 2], elems = (\<lambda>i j. Finite 1), is_gpuarray = False,
     f_contiguous = False\<rparr>"


definition low_world :: world where
  "low_world = \<lparr>rng = (\<lambda>i. 1 / 10), device_free = 1048576, live = [], next_handle = 0,
     launch_faults = False, trace = []\<rparr>"

definition high_world :: world where
  "high_world = low_world\<lparr>rng := (\<lambda>i. 9 / 10)\<rparr>"

definition faulty_world :: world where
  "faulty_world = low_world\<lparr>launch_faults := True\<rparr>"


subsection \<open>Bookkeeping of device buffers\<close>

text \<open>The live device arrays that hold a given kind of buffer, and the invariant of the
  allocator: every live array has a handle below the next fresh one.\<close>

definition outstanding :: "buffer \<Rightarrow> world \<Rightarrow> gpuarray list" where
  "outstanding b w = filter (\<lambda>a. holds a = b) (live w)"

definition handles_fresh :: "world \<Rightarrow> bool" where
  "handles_fresh w = (\<forall>a \<in> set (live w). gpudata a < next_handle w)"

section \<open>Properties of the launch geometry\<close>

lemma sfm_config_ok_threads:
  "sfm_config_ok xdim ydim stride func_regs max_regs max_smem max_threads \<Longrightarrow> xdim * ydim \<le> max_threads"
  by (simp add: sfm_config_ok_def Let_def)


lemma tune_xdim_pos: "0 < tune_xdim info"
  by (simp add: tune_xdim_def)

lemma sfm_config_ok_antimono:
  assumes "0 < xdim" "0 \<le> func_regs" "ydim \<le> ydim'"
    and "sfm_config_ok xdim ydim' stride func_regs max_regs max_smem max_threads"
  shows "sfm_config_ok xdim ydim stride func_regs max_regs max_smem max_threads"
proof -
  have r: "func_regs * ydim * xdim \<le> func_regs * ydim' * xdim"
    using assms(1-3) by (simp add: mult_left_mono mult_right_mono)
  have t: "xdim * ydim \<le> xdim * ydim'"
    using assms(1,3) by (simp add: mult_left_mono)
  from r have "real_of_int (func_regs * ydim * xdim) \<le> real_of_int (func_regs * ydim' * xdim)"
    by (simp only: of_int_le_iff)
  with t assms(4) show ?thesis
    unfolding sfm_config_ok_def Let_def by linarith
qed

lemma sfm_loop_first_failure:
  assumes "0 < xdim"
  shows "\<exists>r. sfm_loop xdim ydim stride func_regs max_regs max_smem max_threads = Some r
           \<and> ydim \<le> r
           \<and> \<not> sfm_config_ok xdim r stride func_regs max_regs max_smem max_threads
           \<and> (\<forall>z. ydim \<le> z \<and> z < r \<longrightarrow> sfm_config_ok xdim z stride func_regs max_regs max_smem max_threads)"
proof (induction "nat (max_threads - xdim * ydim + 1)" arbitrary: ydim rule: less_induct)
  case less
  show ?case
  proof (cases "sfm_config_ok xdim ydim stride func_regs max_regs max_smem max_threads")
    case False
    then have "sfm_loop xdim ydim stride func_regs max_regs max_smem max_threads = Some ydim"
      by (subst sfm_loop.simps) simp
    with False show ?thesis by auto
  next
    case True
    then have le: "xdim * ydim \<le> max_threads" by (rule sfm_config_ok_threads)
    have "xdim * (ydim + 1) = xdim * ydim + xdim" by (simp add: algebra_simps)
    with le assms have "nat (max_threads - xdim * (ydim + 1) + 1) < nat (max_threads - xdim * ydim + 1)"
      by linarith
    from less[OF this] obtain r where
      r: "sfm_loop xdim (ydim + 1) stride func_regs max_regs max_smem max_threads = Some r"
         "ydim + 1 \<le> r"
         "\<not> sfm_config_ok xdim r stride func_regs max_regs max_smem max_threads"
         "\<forall>z. ydim + 1 \<le> z \<and> z < r \<longrightarrow> sfm_config_ok xdim z stride func_regs max_regs max_smem max_threads"
      by blast
    from True r(1) have "sfm_loop xdim ydim stride func_regs max_regs max_smem max_threads = Some r"
      by (subst sfm_loop.simps) simp
    moreover have "ydim \<le> r" using r(2) by simp
    moreover have "\<forall>z. ydim \<le> z \<and> z < r \<longrightarrow> sfm_config_ok xdim z stride func_regs max_regs max_smem max_threads"
    proof (intro allI impI)
      fix z assume z: "ydim \<le> z \<and> z < r"
      show "sfm_config_ok xdim z stride func_regs max_regs max_smem max_threads"
      proof (cases "z = ydim")
        case True with \<open>sfm_config_ok xdim ydim stride func_regs max_regs max_smem max_threads\<close> show ?thesis by simp
      next
        case False
        with z have "ydim + 1 \<le> z \<and> z < r" by simp
        with r(4) show ?thesis by blast
      qed
    qed
    ultimately show ?thesis using r(3) by blast
  qed
qed

text \<open>What \<open>tune_sfm\<close> returns, in terms of the first candidate the predicate rejects.\<close>

lemma tune_sfm_result:
  "\<exists>r. tune_sfm info n stride func_regs =
          Some ((n div tune_xdim info + 1, 1), (tune_xdim info, r - 1, 1))
     \<and> 2 \<le> r
     \<and> \<not> sfm_config_ok (tune_xdim info) r stride func_regs
            (tune_max_regs info) (tune_max_smem info) (tune_max_threads info)
     \<and> (\<forall>z. 2 \<le> z \<and> z < r \<longrightarrow> sfm_config_ok (tune_xdim info) z stride func_regs
            (tune_max_regs info) (tune_max_smem info) (tune_max_threads info))"
proof -
  from sfm_loop_first_failure[OF tune_xdim_pos, of info 2 stride func_regs
      "tune_max_regs info" "tune_max_smem info" "tune_max_threads info"]
  obtain r where r: "sfm_loop (tune_xdim info) 2 stride func_regs
        (tune_max_regs info) (tune_max_smem info) (tune_max_threads info) = Some r"
    "2 \<le> r"
    "\<not> sfm_config_ok (tune_xdim info) r stride func_regs
            (tune_max_regs info) (tune_max_smem info) (tune_max_threads info)"
    "\<forall>z. 2 \<le> z \<and> z < r \<longrightarrow> sfm_config_ok (tune_xdim info) z stride func_regs
            (tune_max_regs info) (tune_max_smem info) (tune_max_threads info)"
    by blast
  from r(1) have "tune_sfm info n stride func_regs =
          Some ((n div tune_xdim info + 1, 1), (tune_xdim info, r - 1, 1))"
    by (simp add: tune_sfm_def Let_def)
  with r(2-4) show ?thesis by blast
qed

lemma ceiling_div_not_dvd:
  assumes "0 < d" "\<not> d dvd n"
  shows "\<lceil>real_of_int n / real_of_int d\<rceil> = n div d + 1"
proof -
  from assms have "n mod d \<noteq> 0" by (simp add: dvd_eq_mod_eq_0)
  with assms(1) have "(- n) div d = - (n div d) - 1"
    by (simp add: zdiv_zminus1_eq_if)
  then show ?thesis by (simp add: ceiling_divide_eq_div)
qed

lemma ceiling_div_dvd:
  assumes "d dvd n"
  shows "\<lceil>real_of_int n / real_of_int d\<rceil> = n div d"
  using assms by (metis ceiling_of_int real_of_int_div)


lemma py_int_half: "0 \<le> m \<Longrightarrow> (a \<le> py_int (of_int m * 0.5)) = (real_of_int a \<le> 0.5 * of_int m)"
  by (simp add: py_int_def le_floor_iff mult.commute)

lemma py_int_half_neg: "m < 0 \<Longrightarrow> py_int (of_int m * 0.5) \<le> 0"
  by (simp add: py_int_def ceiling_le_iff)

text \<open>
  Claim C4. In the fixed-block variant the block is \<open>(x, 16, 1)\<close> with \<open>x = 32\<close> when the
  device allows at least 1024 threads per block and \<open>x = 16\<close> otherwise, and the shared
  memory requested is \<open>4 * ((x + 1) * y + 2 * y)\<close> bytes, for every descriptor and every \<open>n\<close>.
\<close>

theorem fixed_block_geometry:
  "block (sample_discrete_launch info n) =
     (if 1024 \<le> max_block_threads info then 32 else 16, 16, 1)
   \<and> shared (sample_discrete_launch info n) =
       (let x = fst (block (sample_discrete_launch info n));
            y = fst (snd (block (sample_discrete_launch info n)))
        in 4 * ((x + 1) * y + 2 * y))"
  by (simp add: sample_discrete_launch_def x_block_dim_def y_block_dim_def Let_def)

text \<open>Claim C4 at the two example descriptors, one on each side of the 1024 threshold.\<close>

theorem fixed_block_geometry_witness:
  "block (sample_discrete_launch example_device 100) = (32, 16, 1)
   \<and> shared (sample_discrete_launch example_device 100) = 2240
   \<and> block (sample_discrete_launch small_device 100) = (16, 16, 1)
   \<and> shared (sample_discrete_launch small_device 100) = 1216"
  using fixed_block_geometry [of example_device 100] fixed_block_geometry [of small_device 100]
  by (simp add: example_device_def small_device_def Let_def)

text \<open>
  Claim C9. For every \<open>n\<close>, stride, register count and descriptor the search of
  \<^verbatim>\<open>_tune_sfm\<close> ends (the result is \<open>Some\<close>), and the block y-dimension it returns is at
  least 1, also when the predicate already fails at the starting value 2.
\<close>

theorem tune_sfm_terminates_ydim_ge_1:
  "\<exists>g y. tune_sfm info n stride func_regs = Some (g, (tune_xdim info, y, 1)) \<and> 1 \<le> y"
proof -
  from tune_sfm_result[of info n stride func_regs] obtain r where
    "tune_sfm info n stride func_regs =
          Some ((n div tune_xdim info + 1, 1), (tune_xdim info, r - 1, 1))" "2 \<le> r"
    by blast
  then have "tune_sfm info n stride func_regs =
          Some ((n div tune_xdim info + 1, 1), (tune_xdim info, r - 1, 1)) \<and> 1 \<le> r - 1"
    by simp
  then show ?thesis by blast
qed

text \<open>
  Claim C3 as stated fails: for a single row (\<open>n = 1\<close>) both variants launch one block,
  while \<open>ceil (n / y) + 1\<close> and \<open>ceil (n / x) + 1\<close> are 2.
\<close>

theorem grid_ceil_counterexample:
  "fst (grid (sample_discrete_launch example_device 1)) \<noteq> \<lceil>(1::real) / 16\<rceil> + 1
   \<and> tune_sfm example_device 1 5 20 = Some ((1, 1), (32, 16, 1))
   \<and> (1::int) \<noteq> \<lceil>(1::real) / 32\<rceil> + 1"
proof -
  have t: "tune_sfm example_device 1 5 20 = Some ((1, 1), (32, 16, 1))" by code_simp
  have c16: "\<lceil>(1::real) / 16\<rceil> = 1" by (rule ceiling_unique) simp_all
  have c32: "\<lceil>(1::real) / 32\<rceil> = 1" by (rule ceiling_unique) simp_all
  have "fst (grid (sample_discrete_launch example_device 1)) = 1"
    by (simp add: sample_discrete_launch_def y_block_dim_def Let_def)
  with t c16 c32 show ?thesis by simp
qed

text \<open>
  Claim C3, amended. The grid x-dimension is \<open>floor (n / 16) + 1\<close> in the fixed-block variant
  and \<open>floor (n / x) + 1\<close> in the adaptive variant. In the fixed-block variant this is
  \<open>ceil (n / 16) + 1\<close> exactly when 16 divides \<open>n\<close>, and \<open>ceil (n / 16)\<close> otherwise.
\<close>

theorem grid_floor_plus_one:
  "fst (grid (sample_discrete_launch info n)) = \<lfloor>real_of_int n / 16\<rfloor> + 1
   \<and> fst (grid (sample_discrete_launch info n)) =
       (if 16 dvd n then \<lceil>real_of_int n / 16\<rceil> + 1 else \<lceil>real_of_int n / 16\<rceil>)
   \<and> (\<exists>gy b. tune_sfm info n stride func_regs =
         Some ((\<lfloor>real_of_int n / real_of_int (tune_xdim info)\<rfloor> + 1, gy), b))"
proof -
  have g: "fst (grid (sample_discrete_launch info n)) = n div 16 + 1"
    by (simp add: sample_discrete_launch_def y_block_dim_def Let_def)
  have f: "\<lfloor>real_of_int n / 16\<rfloor> = n div 16"
    using floor_divide_of_int_eq[of n 16] by simp
  have c1: "16 dvd n \<Longrightarrow> \<lceil>real_of_int n / 16\<rceil> = n div 16"
    using ceiling_div_dvd[of 16 n] by simp
  have c2: "\<not> 16 dvd n \<Longrightarrow> \<lceil>real_of_int n / 16\<rceil> = n div 16 + 1"
    using ceiling_div_not_dvd[of 16 n] by simp
  from tune_sfm_result[of info n stride func_regs] obtain r where
    "tune_sfm info n stride func_regs =
          Some ((n div tune_xdim info + 1, 1), (tune_xdim info, r - 1, 1))"
    by blast
  then have "\<exists>gy b. tune_sfm info n stride func_regs =
         Some ((\<lfloor>real_of_int n / real_of_int (tune_xdim info)\<rfloor> + 1, gy), b)"
    by (simp add: floor_divide_of_int_eq)
  with g f c1 c2 show ?thesis by simp
qed

text \<open>Claim C3, amended, at \<open>n = 17\<close>, \<open>n = 32\<close> and \<open>n = 33\<close>.\<close>

theorem grid_floor_plus_one_witness:
  "fst (grid (sample_discrete_launch example_device 17)) = 2
   \<and> fst (grid (sample_discrete_launch example_device 32)) = 3
   \<and> (\<exists>gy b. tune_sfm example_device 33 5 20 = Some ((2, gy), b))"
proof -
  have x: "tune_xdim example_device = 32" by (simp add: tune_xdim_def example_device_def)
  have "\<lfloor>real_of_int 33 / real_of_int 32\<rfloor> = 1" by simp
  with grid_floor_plus_one [of example_device 33 5 20] x
  have "\<exists>gy b. tune_sfm example_device 33 5 20 = Some ((2, gy), b)" by simp
  with grid_floor_plus_one [of example_device 17 5 20] grid_floor_plus_one [of example_device 32 5 20]
  show ?thesis by simp
qed



lemma old_stride_odd: "odd (old_stride k)"
  by (simp add: old_stride_def) presburger

lemma old_stride_bounds: "k \<le> old_stride k \<and> old_stride k \<le> k + 1"
  by (simp add: old_stride_def)

text \<open>
  Claim C5. At a candidate \<open>(x, y)\<close> the feasibility predicate of the adaptive variant is the
  conjunction of \<open>4 * (x * stride + x) < 0.8 * maxSharedMemoryBytes\<close>,
  \<open>perThreadRegisters * x * y < 0.9 * maxRegistersPerBlock\<close> and
  \<open>x * y \<le> 0.5 * maxThreadsPerBlock\<close>, where \<open>x\<close> is 16 on compute tier 1 and 32 otherwise and the
  stride is \<open>k\<close> rounded up to the next odd number. The code truncates
  \<open>0.5 * maxThreadsPerBlock\<close> to an integer first, which changes nothing for the candidates the
  search visits (\<open>y > 0\<close>) nor for a non-negative thread limit.
\<close>

theorem sfm_predicate_conjunction:
  assumes "0 \<le> max_block_threads info \<or> 0 < ydim"
  shows "tune_xdim info = (if fst (compute_cap info) = 1 then 16 else 32)
     \<and> odd (old_stride k) \<and> k \<le> old_stride k \<and> old_stride k \<le> k + 1
     \<and> (sfm_config_ok (tune_xdim info) ydim (old_stride k) func_regs
            (tune_max_regs info) (tune_max_smem info) (tune_max_threads info)
        \<longleftrightarrow> (real_of_int (4 * (tune_xdim info * old_stride k + tune_xdim info))
                < 0.8 * real_of_int (shared_mem info)
            \<and> real_of_int (func_regs * tune_xdim info * ydim)
                < 0.9 * real_of_int (max_registers info)
            \<and> real_of_int (tune_xdim info * ydim)
                \<le> 0.5 * real_of_int (max_block_threads info)))"
proof -
  have th: "(tune_xdim info * ydim \<le> tune_max_threads info)
        = (real_of_int (tune_xdim info * ydim) \<le> 0.5 * real_of_int (max_block_threads info))"
  proof (cases "0 \<le> max_block_threads info")
    case True
    then show ?thesis
      unfolding tune_max_threads_def by (rule py_int_half)
  next
    case False
    with assms have y: "0 < ydim" by simp
    from False have "tune_max_threads info \<le> 0"
      using py_int_half_neg[of "max_block_threads info"] by (simp add: tune_max_threads_def)
    moreover have pos: "0 < tune_xdim info * ydim"
      using y tune_xdim_pos[of info] by simp
    ultimately have l: "\<not> tune_xdim info * ydim \<le> tune_max_threads info" by linarith
    from pos have "0 < real_of_int (tune_xdim info * ydim)" by (simp only: of_int_0_less_iff)
    with False have "\<not> real_of_int (tune_xdim info * ydim) \<le> 0.5 * real_of_int (max_block_threads info)"
      by simp
    with l show ?thesis by simp
  qed
  have regs: "func_regs * ydim * tune_xdim info = func_regs * tune_xdim info * ydim"
    by (simp add: mult.commute mult.left_commute)
  have "sfm_config_ok (tune_xdim info) ydim (old_stride k) func_regs
            (tune_max_regs info) (tune_max_smem info) (tune_max_threads info)
        \<longleftrightarrow> (real_of_int (4 * (tune_xdim info * old_stride k + tune_xdim info))
                < 0.8 * real_of_int (shared_mem info)
            \<and> real_of_int (func_regs * tune_xdim info * ydim)
                < 0.9 * real_of_int (max_registers info)
            \<and> real_of_int (tune_xdim info * ydim)
                \<le> 0.5 * real_of_int (max_block_threads info))"
    unfolding sfm_config_ok_def Let_def th regs tune_max_regs_def tune_max_smem_def
    by (simp add: mult.commute)
  then show ?thesis
    using old_stride_odd[of k] old_stride_bounds[of k] by (simp add: tune_xdim_def)
qed

text \<open>Claim C5 on the example device: the predicate accepts \<open>y = 2\<close> and rejects
  \<open>y = 17\<close> at \<open>k = 4\<close>.\<close>

theorem sfm_predicate_conjunction_witness:
  "tune_xdim example_device = 32 \<and> old_stride 4 = 5
   \<and> sfm_config_ok (tune_xdim example_device) 2 (old_stride 4) 20
        (tune_max_regs example_device) (tune_max_smem example_device)
        (tune_max_threads example_device)
   \<and> \<not> sfm_config_ok (tune_xdim example_device) 17 (old_stride 4) 20
        (tune_max_regs example_device) (tune_max_smem example_device)
        (tune_max_threads example_device)"
proof -
  have h: "0 \<le> max_block_threads example_device \<or> (0::int) < 2" by simp
  have h': "0 \<le> max_block_threads example_device \<or> (0::int) < 17" by simp
  have s: "old_stride 4 = 5" by (simp add: old_stride_def)
  have x: "tune_xdim example_device = 32" by (simp add: tune_xdim_def example_device_def)
  have m: "max_block_threads example_device = 1024" "shared_mem example_device = 49152"
    "max_registers example_device = 32768" by (simp_all add: example_device_def)
  from sfm_predicate_conjunction [OF h, of 4 20]
  have a: "sfm_config_ok (tune_xdim example_device) 2 (old_stride 4) 20
        (tune_max_regs example_device) (tune_max_smem example_device)
        (tune_max_threads example_device)"
    by (simp add: s x m)
  from sfm_predicate_conjunction [OF h', of 4 20]
  have b: "\<not> sfm_config_ok (tune_xdim example_device) 17 (old_stride 4) 20
        (tune_max_regs example_device) (tune_max_smem example_device)
        (tune_max_threads example_device)"
    by (simp add: s x m)
  from a b s x show ?thesis by simp
qed

text \<open>
  Claim C2 as stated fails: with 1000 categories (stride 1001) on the example device the
  shared memory condition fails for every \<open>y\<close>, \<^verbatim>\<open>_tune_sfm\<close> returns \<open>y = 1\<close>, and the
  predicate does not hold at the returned value.
\<close>

theorem tune_sfm_infeasible_counterexample:
  "tune_sfm example_device 1 1001 20 = Some ((1, 1), (32, 1, 1))
   \<and> \<not> sfm_config_ok 32 1 1001 20 (tune_max_regs example_device)
          (tune_max_smem example_device) (tune_max_threads example_device)"
proof -
  have "tune_sfm example_device 1 1001 20 = Some ((1, 1), (32, 1, 1))" by code_simp
  moreover have "\<not> sfm_config_ok 32 1 1001 20 (tune_max_regs example_device)
          (tune_max_smem example_device) (tune_max_threads example_device)"
    by (simp add: sfm_config_ok_def tune_max_smem_def example_device_def)
  ultimately show ?thesis by simp
qed

text \<open>
  Claim C2, amended. Whenever the feasibility predicate holds at the starting value
  \<open>y = 2\<close> and the register count is not negative, the y-dimension returned by
  \<^verbatim>\<open>_tune_sfm\<close> is the largest feasible one: the predicate holds at \<open>y\<close>, fails at
  \<open>y + 1\<close> and fails at every larger value.
\<close>

theorem tune_sfm_largest_feasible:
  assumes "sfm_config_ok (tune_xdim info) 2 stride func_regs
             (tune_max_regs info) (tune_max_smem info) (tune_max_threads info)"
    and "0 \<le> func_regs"
  shows "\<exists>g y. tune_sfm info n stride func_regs = Some (g, (tune_xdim info, y, 1))
     \<and> sfm_config_ok (tune_xdim info) y stride func_regs
          (tune_max_regs info) (tune_max_smem info) (tune_max_threads info)
     \<and> \<not> sfm_config_ok (tune_xdim info) (y + 1) stride func_regs
          (tune_max_regs info) (tune_max_smem info) (tune_max_threads info)
     \<and> (\<forall>y'. y < y' \<longrightarrow> \<not> sfm_config_ok (tune_xdim info) y' stride func_regs
          (tune_max_regs info) (tune_max_smem info) (tune_max_threads info))"
proof -
  let ?ok = "\<lambda>y. sfm_config_ok (tune_xdim info) y stride func_regs
          (tune_max_regs info) (tune_max_smem info) (tune_max_threads info)"
  from tune_sfm_result[of info n stride func_regs] obtain r where
    r: "tune_sfm info n stride func_regs =
          Some ((n div tune_xdim info + 1, 1), (tune_xdim info, r - 1, 1))"
       "2 \<le> r" "\<not> ?ok r" "\<forall>z. 2 \<le> z \<and> z < r \<longrightarrow> ?ok z"
    by blast
  from assms(1) r(3) have "r \<noteq> 2" by auto
  with r(2) have "2 \<le> r - 1 \<and> r - 1 < r" by simp
  with r(4) have holds: "?ok (r - 1)" by blast
  have fails: "\<not> ?ok (r - 1 + 1)" using r(3) by simp
  have above: "\<forall>y'. r - 1 < y' \<longrightarrow> \<not> ?ok y'"
  proof (intro allI impI notI)
    fix y' assume "r - 1 < y'" and ok: "?ok y'"
    then have "r \<le> y'" by simp
    from sfm_config_ok_antimono[OF tune_xdim_pos assms(2) this ok] r(3) show False by simp
  qed
  from r(1) holds fails above show ?thesis by blast
qed

text \<open>Claim C2, amended, on the example device with stride 5 and 20 registers: the result
  is \<open>y = 16\<close>.\<close>

theorem tune_sfm_largest_feasible_witness:
  "sfm_config_ok (tune_xdim example_device) 2 5 20 (tune_max_regs example_device)
      (tune_max_smem example_device) (tune_max_threads example_device)
   \<and> (0::int) \<le> 20
   \<and> tune_sfm example_device 100 5 20 = Some ((4, 1), (32, 16, 1))
   \<and> sfm_config_ok (tune_xdim example_device) 16 5 20 (tune_max_regs example_device)
      (tune_max_smem example_device) (tune_max_threads example_device)
   \<and> \<not> sfm_config_ok (tune_xdim example_device) 40 5 20 (tune_max_regs example_device)
      (tune_max_smem example_device) (tune_max_threads example_device)"
proof -
  have h: "sfm_config_ok (tune_xdim example_device) 2 5 20 (tune_max_regs example_device)
      (tune_max_smem example_device) (tune_max_threads example_device)"
    by (simp add: sfm_config_ok_def tune_xdim_def tune_max_regs_def tune_max_smem_def
        tune_max_threads_def py_int_def example_device_def)
  have n: "(0::int) \<le> 20" by simp
  have e: "tune_sfm example_device 100 5 20 = Some ((4, 1), (32, 16, 1))" by code_simp
  from tune_sfm_largest_feasible [OF h n, of 100] e h show ?thesis by auto
qed




section \<open>Properties of the sampling entry points\<close>

lemmas facade_defs = prep_data_def gpu_alloc_def gpu_free_def np_random_rand_def
  cu_func_def collect_def Let_def

lemmas kernel_defs = categorical_kernel_def sample_row_def row_masses_def

lemma upt_0_2: "[0..<2] = [0, Suc 0]"
  by (simp add: upt_rec)

lemma live_handle_neq:
  assumes "handles_fresh w" "x \<in> set (live w)" "next_handle w \<le> h"
  shows "gpudata x \<noteq> h"
  using assms by (auto simp: handles_fresh_def)




lemma sample_discrete_release:
  assumes "handles_fresh w" "sample_discrete info d logged rg w = (Inr r, w')"
  shows "outstanding Draws w' = outstanding Draws w
         \<and> (if rg then \<exists>a dest. r = DeviceArray a dest \<and> outstanding Output w' = outstanding Output w @ [a]
            else outstanding Output w' = outstanding Output w)"
  using assms 
  by (auto simp: sample_discrete_def facade_defs outstanding_def live_handle_neq cong: filter_cong
      split: list.splits option.splits if_splits prod.splits sum.splits)

lemma sample_discrete_fault:
  assumes "handles_fresh w" "sample_discrete info d logged rg w = (Inl LaunchError, w')"
  shows "length (outstanding Draws w') = length (outstanding Draws w) + 1
     \<and> length (outstanding Output w') = length (outstanding Output w) + 1"
  using assms 
  by (auto simp: sample_discrete_def facade_defs outstanding_def live_handle_neq cong: filter_cong
      split: list.splits option.splits if_splits prod.splits sum.splits)


lemma sample_discrete_old_buffers:
  assumes call: "sample_discrete_old info padf regs d logged pad rg w = Some (res, w')"
  shows "(\<forall>r. res = Inr r \<longrightarrow>
            result_dtype r = Float32
            \<and> (handles_fresh w \<longrightarrow>
                 outstanding Draws w' = outstanding Draws w
                 \<and> (if rg then \<exists>a dest. r = DeviceArray a dest
                              \<and> outstanding Output w' = outstanding Output w @ [a]
                    else outstanding Output w' = outstanding Output w)))
       \<and> (res = Inl LaunchError \<and> handles_fresh w \<longrightarrow>
            length (outstanding Draws w') = length (outstanding Draws w) + 1
            \<and> length (outstanding Output w') = length (outstanding Output w) + 1)"
proof -
  define d' where "d' = (if pad then (if logged then padf d 1 else padf d 0) else d)"
  define name where
    "name = (if logged then ''sample_discrete_logged_old'' else ''sample_discrete_old'')"
  note body = call[unfolded sample_discrete_old_def Let_def, folded d'_def name_def]
  from body show ?thesis
    by (auto simp: facade_defs outstanding_def live_handle_neq cong: filter_cong
        split: list.splits option.splits if_splits prod.splits sum.splits)
qed

lemma inverse_cdf_range:
  "inverse_cdf t c i ms = Some j \<Longrightarrow> i \<le> j \<and> j < i + length ms"
proof (induction ms arbitrary: c i)
  case Nil
  then show ?case by simp
next
  case (Cons m ms)
  show ?case
  proof (cases "t \<le> c + m")
    case True
    with Cons.prems show ?thesis by simp
  next
    case False
    with Cons.prems have "inverse_cdf t (c + m) (Suc i) ms = Some j" by simp
    from Cons.IH[OF this] show ?thesis by simp
  qed
qed

lemma length_row_masses: "length (row_masses logged ws) = length ws"
  by (simp add: row_masses_def)

lemma sample_row_range:
  assumes "1 \<le> k" "length ws = k"
  shows "0 \<le> sample_row k logged ws u \<and> sample_row k logged ws u < int k"
proof (cases "inverse_cdf (u * sum_list (row_masses logged ws)) 0 0 (row_masses logged ws)")
  case None
  with assms show ?thesis by (simp add: sample_row_def Let_def)
next
  case (Some j)
  from inverse_cdf_range[OF Some] have "j < length (row_masses logged ws)" by simp
  with assms(2) have "j < k" by (simp add: length_row_masses)
  with Some show ?thesis by (simp add: sample_row_def Let_def)
qed

lemma length_finite_values: "finite_values row = Some ws \<Longrightarrow> length ws = length row"
proof (induction row arbitrary: ws)
  case Nil
  then show ?case by simp
next
  case (Cons x row)
  then show ?case by (cases x) auto
qed

lemma categorical_kernel_range:
  assumes "1 \<le> k"
  shows "length (categorical_kernel n k logged dens draws) = n
     \<and> (\<forall>v \<in> set (categorical_kernel n k logged dens draws). 0 \<le> v \<and> v < int k)"
proof -
  have "0 \<le> (case finite_values (map (dens i) [0..<k]) of
                Some ws \<Rightarrow> sample_row k logged ws (draws ! i) | None \<Rightarrow> int k - 1)
      \<and> (case finite_values (map (dens i) [0..<k]) of
                Some ws \<Rightarrow> sample_row k logged ws (draws ! i) | None \<Rightarrow> int k - 1) < int k"
    for i
  proof (cases "finite_values (map (dens i) [0..<k])")
    case None
    with assms show ?thesis by simp
  next
    case (Some ws)
    from length_finite_values[OF Some] have "length ws = k" by simp
    from sample_row_range[OF assms this] Some show ?thesis by simp
  qed
  then show ?thesis by (auto simp: categorical_kernel_def)
qed

text \<open>What \<open>sample_discrete\<close> returns on its normal path: \<open>n\<close> indices below \<open>k\<close>, in a
  buffer of element type \<open>Int32\<close>.\<close>

lemma sample_discrete_int32:
  assumes "sample_discrete info d logged rg w = (Inr r, w')" "shape d = [n, k]" "1 \<le> k"
  shows "result_dtype r = Int32
     \<and> (\<exists>vals. (r = HostArray Int32 vals \<or> (\<exists>a. r = DeviceArray a vals))
           \<and> length vals = n \<and> (\<forall>v \<in> set vals. 0 \<le> v \<and> v < int k))"
  using assms categorical_kernel_range[OF assms(3), of n logged "elems d" "map (rng w) [0..<n]"]
  by (auto simp: sample_discrete_def facade_defs
      split: list.splits option.splits if_splits prod.splits sum.splits)

lemma tune_sfm_example_3: "tune_sfm example_device 1 3 20 = Some ((1, 1), (32, 16, 1))"
  by code_simp

lemma sample_discrete_old_low:
  "sample_discrete_old example_device (\<lambda>d fill. d) (\<lambda>name. 20) one_row False False False low_world
     = Some (Inr (HostArray Float32 [0]),
         snd (the (sample_discrete_old example_device (\<lambda>d fill. d) (\<lambda>name. 20) one_row
            False False False low_world)))"
  by (simp add: sample_discrete_old_def facade_defs kernel_defs one_row_def low_world_def
      upt_0_2 old_stride_def tune_sfm_example_3)

lemma sample_discrete_old_high:
  "sample_discrete_old example_device (\<lambda>d fill. d) (\<lambda>name. 20) one_row False False False high_world
     = Some (Inr (HostArray Float32 [1]),
         snd (the (sample_discrete_old example_device (\<lambda>d fill. d) (\<lambda>name. 20) one_row
            False False False high_world)))"
  by (simp add: sample_discrete_old_def facade_defs kernel_defs one_row_def low_world_def
      high_world_def upt_0_2 old_stride_def tune_sfm_example_3)

lemma sample_discrete_low:
  "fst (sample_discrete example_device one_row False False low_world) = Inr (HostArray Int32 [0])"
  by (simp add: sample_discrete_def facade_defs kernel_defs one_row_def low_world_def upt_0_2)

lemma sample_discrete_high:
  "fst (sample_discrete example_device one_row False False high_world) = Inr (HostArray Int32 [1])"
  by (simp add: sample_discrete_def facade_defs kernel_defs one_row_def low_world_def
      high_world_def upt_0_2)

text \<open>
  Claim C6 on the legacy entry point: whenever \<^verbatim>\<open>sample_discrete_old\<close> returns a vector, on
  any input, the element type of the vector is \<open>Float32\<close>, where its docstring and the claim
  say \<open>int32\<close>. (\<open>sample_discrete_int32\<close> above is the claimed property holding for
  \<^verbatim>\<open>sample_discrete\<close>.)
\<close>

theorem sample_discrete_old_float32:
  assumes "sample_discrete_old info padf regs d logged pad rg w = Some (Inr r, w')"
  shows "result_dtype r = Float32"
  using sample_discrete_old_buffers[OF assms] by blast

text \<open>Claim C6 on one row of two equal weights: the vector returned by
  \<^verbatim>\<open>sample_discrete_old\<close> has element type \<open>Float32\<close>.\<close>

theorem sample_discrete_old_float32_witness:
  "map_option fst
     (sample_discrete_old example_device (\<lambda>d fill. d) (\<lambda>name. 20) one_row False False False
        low_world)
   = Some (Inr (HostArray Float32 [0]))
   \<and> result_dtype (HostArray Float32 [0]) = Float32"
  using sample_discrete_old_float32[OF sample_discrete_old_low]
  by (subst sample_discrete_old_low) simp

text \<open>
  Claim C10. The draws come from the process-global generator, not from the arguments:
  there are two calls of \<^verbatim>\<open>sample_discrete\<close> with the same arguments, in worlds that
  differ in nothing but the state of the generator, that return different index vectors;
  and the same for \<^verbatim>\<open>sample_discrete_old\<close>.
\<close>

theorem result_depends_on_global_rng:
  "(\<exists>info densities logged return_gpuarray w g.
      fst (sample_discrete info densities logged return_gpuarray w)
        \<noteq> fst (sample_discrete info densities logged return_gpuarray (w\<lparr>rng := g\<rparr>)))
   \<and> (\<exists>info padf regs densities logged pad return_gpuarray w g.
      map_option fst (sample_discrete_old info padf regs densities logged pad return_gpuarray w)
        \<noteq> map_option fst
            (sample_discrete_old info padf regs densities logged pad return_gpuarray
               (w\<lparr>rng := g\<rparr>)))"
proof -
  have h: "high_world = low_world\<lparr>rng := (\<lambda>i. 9 / 10)\<rparr>" by (simp add: high_world_def)
  have "fst (sample_discrete example_device one_row False False low_world)
        \<noteq> fst (sample_discrete example_device one_row False False (low_world\<lparr>rng := (\<lambda>i. 9 / 10)\<rparr>))"
    using sample_discrete_low sample_discrete_high by (simp add: h)
  then have a: "\<exists>info densities logged return_gpuarray w g.
      fst (sample_discrete info densities logged return_gpuarray w)
        \<noteq> fst (sample_discrete info densities logged return_gpuarray (w\<lparr>rng := g\<rparr>))"
    by blast
  have l: "map_option fst (sample_discrete_old example_device (\<lambda>d fill. d) (\<lambda>name. 20) one_row
              False False False low_world) = Some (Inr (HostArray Float32 [0]))"
    by (subst sample_discrete_old_low) simp
  have u: "map_option fst (sample_discrete_old example_device (\<lambda>d fill. d) (\<lambda>name. 20) one_row
              False False False (low_world\<lparr>rng := (\<lambda>i. 9 / 10)\<rparr>))
            = Some (Inr (HostArray Float32 [1]))"
    unfolding h[symmetric] by (subst sample_discrete_old_high) simp
  have "map_option fst (sample_discrete_old example_device (\<lambda>d fill. d) (\<lambda>name. 20)
              one_row False False False low_world)
        \<noteq> map_option fst (sample_discrete_old example_device (\<lambda>d fill. d) (\<lambda>name. 20) one_row
              False False False (low_world\<lparr>rng := (\<lambda>i. 9 / 10)\<rparr>))"
    unfolding l u by simp
  then have b: "\<exists>info padf regs densities logged pad return_gpuarray w g.
      map_option fst (sample_discrete_old info padf regs densities logged pad return_gpuarray w)
        \<noteq> map_option fst
            (sample_discrete_old info padf regs densities logged pad return_gpuarray
               (w\<lparr>rng := g\<rparr>))"
    by blast
  from a b show ?thesis by blast
qed

text \<open>\<^verbatim>\<open>sample_discrete_old\<close> returns or raises on every input: the search inside it ends.\<close>

lemma sample_discrete_old_returns:
  "sample_discrete_old info padf regs d logged pad rg w \<noteq> None"
proof -
  have t: "tune_sfm info n stride func_regs \<noteq> None" for n stride func_regs
    using tune_sfm_result[of info n stride func_regs] by auto
  define d' where "d' = (if pad then (if logged then padf d 1 else padf d 0) else d)"
  define name where
    "name = (if logged then ''sample_discrete_logged_old'' else ''sample_discrete_old'')"
  show ?thesis
    unfolding sample_discrete_old_def Let_def d'_def[symmetric] name_def[symmetric]
    by (simp add: t cu_func_def collect_def Let_def
        split: list.split option.split prod.split sum.split)
qed

lemma sample_discrete_old_faulty:
  "sample_discrete_old example_device (\<lambda>d fill. d) (\<lambda>name. 20) one_row False False False faulty_world
     = Some (Inl LaunchError,
         snd (the (sample_discrete_old example_device (\<lambda>d fill. d) (\<lambda>name. 20) one_row
            False False False faulty_world)))"
  by (simp add: sample_discrete_old_def facade_defs kernel_defs one_row_def low_world_def
      faulty_world_def upt_0_2 old_stride_def tune_sfm_example_3)




text \<open>
  Claim C8 as stated fails: when the device rejects the launch, \<^verbatim>\<open>sample_discrete\<close> exits
  with the error and the draws buffer (and the output buffer) is still allocated.
\<close>

theorem draws_not_released_counterexample:
  "fst (sample_discrete example_device one_row False False faulty_world) = Inl LaunchError
   \<and> live (snd (sample_discrete example_device one_row False False faulty_world)) =
       [\<lparr>gpudata = 0, nelems = 2, dtype = Float32, holds = Densities\<rparr>,
        \<lparr>gpudata = 1, nelems = 1, dtype = Float32, holds = Draws\<rparr>,
        \<lparr>gpudata = 2, nelems = 1, dtype = Int32, holds = Output\<rparr>]
   \<and> outstanding Draws (snd (sample_discrete example_device one_row False False faulty_world)) =
       [\<lparr>gpudata = 1, nelems = 1, dtype = Float32, holds = Draws\<rparr>]"
  by (simp add: sample_discrete_def facade_defs one_row_def low_world_def faulty_world_def
      outstanding_def)

text \<open>
  Claim C8, amended. When a sampling call returns normally, the draws buffer has been
  released, and the output buffer has been released exactly when the result was copied out
  to the host (otherwise it is the array returned). When the kernel launch fails, the call
  exits with the error and has released neither buffer. This holds for both entry points.
\<close>

theorem scratch_buffers_on_exit:
  assumes "handles_fresh w"
    and "sample_discrete info d logged rg w = (res, w')"
    and "sample_discrete_old info padf regs d_old logged_old pad rg_old w = Some (res_old, w_old)"
  shows "(\<forall>r. res = Inr r \<longrightarrow>
            outstanding Draws w' = outstanding Draws w
            \<and> (if rg then \<exists>a dest. r = DeviceArray a dest
                         \<and> outstanding Output w' = outstanding Output w @ [a]
               else outstanding Output w' = outstanding Output w))
       \<and> (res = Inl LaunchError \<longrightarrow>
            length (outstanding Draws w') = length (outstanding Draws w) + 1
            \<and> length (outstanding Output w') = length (outstanding Output w) + 1)
       \<and> (\<forall>r. res_old = Inr r \<longrightarrow>
            outstanding Draws w_old = outstanding Draws w
            \<and> (if rg_old then \<exists>a dest. r = DeviceArray a dest
                         \<and> outstanding Output w_old = outstanding Output w @ [a]
               else outstanding Output w_old = outstanding Output w))
       \<and> (res_old = Inl LaunchError \<longrightarrow>
            length (outstanding Draws w_old) = length (outstanding Draws w) + 1
            \<and> length (outstanding Output w_old) = length (outstanding Output w) + 1)"
proof -
  have 1: "\<forall>r. res = Inr r \<longrightarrow>
            outstanding Draws w' = outstanding Draws w
            \<and> (if rg then \<exists>a dest. r = DeviceArray a dest
                         \<and> outstanding Output w' = outstanding Output w @ [a]
               else outstanding Output w' = outstanding Output w)"
    using sample_discrete_release[OF assms(1), of info d logged rg _ w'] assms(2) by blast
  have 2: "res = Inl LaunchError \<longrightarrow>
            length (outstanding Draws w') = length (outstanding Draws w) + 1
            \<and> length (outstanding Output w') = length (outstanding Output w) + 1"
    using sample_discrete_fault[OF assms(1), of info d logged rg w'] assms(2) by blast
  from 1 2 sample_discrete_old_buffers[OF assms(3)] assms(1) show ?thesis by blast
qed

text \<open>Claim C8, amended, on one row in a world whose launch succeeds and in one whose
  launch fails.\<close>

theorem scratch_buffers_on_exit_witness:
  "handles_fresh low_world \<and> handles_fresh faulty_world
   \<and> fst (sample_discrete example_device one_row False False low_world) = Inr (HostArray Int32 [0])
   \<and> outstanding Draws (snd (sample_discrete example_device one_row False False low_world)) = []
   \<and> outstanding Output (snd (sample_discrete example_device one_row False False low_world)) = []
   \<and> fst (sample_discrete example_device one_row False False faulty_world) = Inl LaunchError
   \<and> length (outstanding Draws
        (snd (sample_discrete example_device one_row False False faulty_world))) = 1
   \<and> outstanding Draws (snd (the (sample_discrete_old example_device (\<lambda>d fill. d) (\<lambda>name. 20)
        one_row False False False low_world))) = []"
proof -
  have f: "handles_fresh low_world" "handles_fresh faulty_world"
    by (simp_all add: handles_fresh_def low_world_def faulty_world_def)
  have o: "outstanding Draws low_world = []" "outstanding Output low_world = []"
    "outstanding Draws faulty_world = []"
    by (simp_all add: outstanding_def low_world_def faulty_world_def)
  have e: "fst (sample_discrete example_device one_row False False faulty_world) = Inl LaunchError"
    by (simp add: sample_discrete_def facade_defs one_row_def low_world_def faulty_world_def)
  from scratch_buffers_on_exit[OF f(1) surjective_pairing sample_discrete_old_low]
    sample_discrete_low o
  have a: "outstanding Draws (snd (sample_discrete example_device one_row False False low_world)) = []
     \<and> outstanding Output (snd (sample_discrete example_device one_row False False low_world)) = []
     \<and> outstanding Draws (snd (the (sample_discrete_old example_device (\<lambda>d fill. d) (\<lambda>name. 20)
        one_row False False False low_world))) = []"
    by simp
  from scratch_buffers_on_exit[OF f(2) surjective_pairing sample_discrete_old_faulty] e o
  have b: "length (outstanding Draws
        (snd (sample_discrete example_device one_row False False faulty_world))) = 1"
    by simp
  from f a b e sample_discrete_low show ?thesis by simp
qed

end
